theory Spec2Isabelle
  imports Complex_Main "HOL-Library.AList" "HOL-Library.Multiset"
begin

section \<open>Travel emissions calculator: the script as a function of its widget values\<close>

text \<open>
  The program is one script, \<^verbatim>\<open>emissions_bike_car.py\<close>. It reads five widget values,
  builds a per-mode factor table from two constant tables and the diet, and computes the
  selected mode's emission together with a sorted comparison of all modes.

  Modelling decisions:
  \<^item> mode, view and diet identifiers are the strings the script compares;
  \<^item> a Python \<^verbatim>\<open>dict\<close> is an association list in insertion order, assignment to a key
    is \<open>AList.update\<close> (an existing key keeps its place, a new key goes last);
  \<^item> Python floats are idealised as exact reals: rounding is not modelled;
  \<^item> the two ways the script can raise (a missing key, a division by zero) are
    values of \<open>py_error\<close>, and the script's result is \<open>py_error + result\<close>.
\<close>

subsection \<open>Inputs\<close>

text \<open>
  Lines 9 to 35: the values the five widgets return. \<open>slider\<close> is what the passenger
  slider returns; the script reads it only when the mode is a car type.
\<close>

record inputs =
  distance_km :: real
  vehicle_type :: string
  slider :: int
  view :: string
  diet_type :: string

text \<open>The options of the mode select box (lines 11 to 20), in order.\<close>

definition vehicle_options :: "string list" where
  "vehicle_options =
     [''Walking (including food fuel)'',
      ''Standard Bike'',
      ''Lightweight Bike'',
      ''E-Bike'',
      ''Small Car'',
      ''Electric Car'',
      ''Bus (per passenger)'',
      ''Local Electric Train'']"

text \<open>The list the script tests car types against (lines 23, 73, 87, 120).\<close>

definition car_types :: "string list" where
  "car_types = [''Small Car'', ''Electric Car'']"

text \<open>
  The ranges the widgets are declared with: \<^verbatim>\<open>min_value=0.0\<close> for the distance, the
  select box options for the mode, \<^verbatim>\<open>min_value=1, max_value=5\<close> for the slider (which
  exists only for a car type), and the two options of each radio button.
\<close>

definition valid_input :: "inputs \<Rightarrow> bool" where
  "valid_input inp \<longleftrightarrow>
     0 \<le> distance_km inp \<and>
     vehicle_type inp \<in> set vehicle_options \<and>
     (vehicle_type inp \<in> set car_types \<longrightarrow> 1 \<le> slider inp \<and> slider inp \<le> 5) \<and>
     view inp \<in> set [''Per Trip'', ''Per Year''] \<and>
     diet_type inp \<in> set [''Average Western'', ''Low-carbon / Plant-based'']"

subsection \<open>Lines 23 to 36: passengers, multiplier, diet constant\<close>

definition passengers :: "inputs \<Rightarrow> int" where
  "passengers inp =
     (if vehicle_type inp \<in> set car_types then slider inp else 1)"

definition trips_per_year :: int where
  "trips_per_year = 520"

definition multiplier :: "inputs \<Rightarrow> int" where
  "multiplier inp = (if view inp = ''Per Year'' then trips_per_year else 1)"

definition food_emission_per_kcal :: "inputs \<Rightarrow> real" where
  "food_emission_per_kcal inp =
     (if diet_type inp = ''Average Western'' then 0.0025 else 0.0012)"

subsection \<open>Lines 39 to 56: the constant tables\<close>

definition KCAL_PER_KM :: "(string \<times> real) list" where
  "KCAL_PER_KM =
     [(''Walking (including food fuel)'', 80),
      (''Standard Bike'', 50),
      (''Lightweight Bike'', 40),
      (''E-Bike'', 20)]"

definition embodied_emissions :: "(string \<times> real) list" where
  "embodied_emissions =
     [(''Walking (including food fuel)'', 0.0),
      (''Standard Bike'', 0.02),
      (''Lightweight Bike'', 0.016),
      (''E-Bike'', 0.05),
      (''Small Car'', 0.44),
      (''Electric Car'', 0.24),
      (''Bus (per passenger)'', 0.12),
      (''Local Electric Train'', 0.00935)]"

subsection \<open>Dictionary operations\<close>

datatype py_error = KeyError | ZeroDivisionError

text \<open>\<^verbatim>\<open>d.get(k, default)\<close>\<close>

definition dict_get :: "('k \<times> 'v) list \<Rightarrow> 'k \<Rightarrow> 'v \<Rightarrow> 'v" where
  "dict_get d k dflt = (case map_of d k of None \<Rightarrow> dflt | Some v \<Rightarrow> v)"

text \<open>\<^verbatim>\<open>d[k]\<close>, which raises \<^verbatim>\<open>KeyError\<close> on a missing key.\<close>

definition dict_index :: "('k \<times> 'v) list \<Rightarrow> 'k \<Rightarrow> py_error + 'v" where
  "dict_index d k = (case map_of d k of None \<Rightarrow> Inl KeyError | Some v \<Rightarrow> Inr v)"

text \<open>
  A dictionary built by visiting the entries of \<open>d\<close> in order and assigning
  \<open>f k v\<close> to key \<open>k\<close> of a dictionary that starts empty: the loop of lines 59 to 62
  and the comprehensions of lines 86 to 89 and 93.
\<close>

definition dict_build :: "('k \<Rightarrow> 'v \<Rightarrow> 'w) \<Rightarrow> ('k \<times> 'v) list \<Rightarrow> ('k \<times> 'w) list" where
  "dict_build f d = fold (\<lambda>(k, v) acc. AList.update k (f k v) acc) d []"

subsection \<open>Lines 59 to 62: the factor table\<close>

definition EMISSIONS_FACTORS :: "inputs \<Rightarrow> (string \<times> real) list" where
  "EMISSIONS_FACTORS inp =
     dict_build
       (\<lambda>mode embodied.
          let food_emissions = dict_get KCAL_PER_KM mode 0 * food_emission_per_kcal inp
          in embodied + food_emissions)
       embodied_emissions"

subsection \<open>Lines 65 to 99: the computation\<close>

record result =
  base_factor :: real
  emission_factor :: real
  total_emissions :: real
  vehicle_total :: "real option"
  solo_car_emissions :: real
  emissions_saved_vs_solo :: real
  emissions_data :: "(string \<times> real) list"
  solo_baseline :: real
  savings_vs_car :: "(string \<times> real) list"
  sorted_modes :: "(string \<times> real) list"

text \<open>\<^verbatim>\<open>x / n\<close> for a float \<open>x\<close> and an int \<open>n\<close>: raises on \<open>n = 0\<close>.\<close>

definition py_div :: "real \<Rightarrow> int \<Rightarrow> py_error + real" where
  "py_div x n = (if n = 0 then Inl ZeroDivisionError else Inr (x / of_int n))"

text \<open>
  Line 87, the value of one entry of \<^verbatim>\<open>emissions_data\<close>. It is evaluated only after
  line 66 has divided by \<open>passengers\<close> without raising, so the divisor here is not zero.
\<close>

definition emissions_entry :: "inputs \<Rightarrow> string \<Rightarrow> real \<Rightarrow> real" where
  "emissions_entry inp mode factor =
     (factor /
        of_int (if mode = vehicle_type inp \<and> mode \<in> set car_types
                then passengers inp else 1))
     * distance_km inp * of_int (multiplier inp)"

text \<open>
  The script from line 65 on. \<open>vehicle_total\<close> is the figure of the caption of line 74,
  which is computed only under the condition of line 73.
\<close>

definition run :: "inputs \<Rightarrow> py_error + result" where
  "run inp =
     (case dict_index (EMISSIONS_FACTORS inp) (vehicle_type inp) of
        Inl e \<Rightarrow> Inl e
      | Inr bf \<Rightarrow>
     (case py_div bf (passengers inp) of
        Inl e \<Rightarrow> Inl e
      | Inr ef \<Rightarrow>
     (case dict_index embodied_emissions ''Small Car'' of
        Inl e \<Rightarrow> Inl e
      | Inr small_car \<Rightarrow>
         let total = ef * distance_km inp * of_int (multiplier inp);
             vt = (if passengers inp > 1 \<and> vehicle_type inp \<in> set car_types
                   then Some (bf * distance_km inp * of_int (multiplier inp))
                   else None);
             solo_car = small_car * distance_km inp * of_int (multiplier inp);
             saved = solo_car - total;
             data = dict_build (emissions_entry inp) (EMISSIONS_FACTORS inp);
             baseline = small_car * distance_km inp * of_int (multiplier inp);
             savings = dict_build (\<lambda>mode v. baseline - v) data;
             srt = sort_key snd data
         in Inr \<lparr> base_factor = bf,
                  emission_factor = ef,
                  total_emissions = total,
                  vehicle_total = vt,
                  solo_car_emissions = solo_car,
                  emissions_saved_vs_solo = saved,
                  emissions_data = data,
                  solo_baseline = baseline,
                  savings_vs_car = savings,
                  sorted_modes = srt \<rparr>)))"

subsection \<open>Concrete inputs\<close>

text \<open>A small car shared by four people, ten kilometres, one trip, average Western diet.\<close>

definition shared_small_car :: inputs where
  "shared_small_car =
     \<lparr> distance_km = 10, vehicle_type = ''Small Car'', slider = 4,
       view = ''Per Trip'', diet_type = ''Average Western'' \<rparr>"

text \<open>Walking no distance at all, counted per year.\<close>

definition yearly_walk_nowhere :: inputs where
  "yearly_walk_nowhere =
     \<lparr> distance_km = 0, vehicle_type = ''Walking (including food fuel)'', slider = 3,
       view = ''Per Year'', diet_type = ''Average Western'' \<rparr>"

text \<open>An electric car shared by two people: its entry ties with the bus.\<close>

definition shared_electric_car :: inputs where
  "shared_electric_car =
     \<lparr> distance_km = 10, vehicle_type = ''Electric Car'', slider = 2,
       view = ''Per Trip'', diet_type = ''Average Western'' \<rparr>"






section \<open>Properties\<close>

subsection \<open>Dictionaries with distinct keys\<close>

lemma update_fresh:
  "k \<notin> fst ` set acc \<Longrightarrow> AList.update k v acc = acc @ [(k, v)]"
  by (induction acc) auto

lemma dict_build_fold:
  "distinct (map fst acc @ map fst d) \<Longrightarrow>
   fold (\<lambda>(k, v) acc. AList.update k (f k v) acc) d acc
     = acc @ map (\<lambda>(k, v). (k, f k v)) d"
proof (induction d arbitrary: acc)
  case Nil
  then show ?case by simp
next
  case (Cons p d)
  obtain k v where p: "p = (k, v)" by (cases p)
  from Cons.prems p have fresh: "k \<notin> fst ` set acc" by auto
  from Cons.prems p have "distinct (map fst (acc @ [(k, f k v)]) @ map fst d)" by auto
  from Cons.IH [OF this] show ?case
    by (simp add: p update_fresh [OF fresh])
qed

lemma dict_build_map:
  "distinct (map fst d) \<Longrightarrow> dict_build f d = map (\<lambda>(k, v). (k, f k v)) d"
  using dict_build_fold [of "[]" d f] by (simp add: dict_build_def)

subsection \<open>The factor table and the result of the script\<close>

lemma map_of_build:
  "map_of (map (\<lambda>(k, v). (k, f k v)) d) k = map_option (f k) (map_of d k)"
  by (induction d) auto

lemma distinct_embodied: "distinct (map fst embodied_emissions)"
  by (simp add: embodied_emissions_def)

lemma EMISSIONS_FACTORS_map:
  "EMISSIONS_FACTORS inp =
     map (\<lambda>(mode, embodied).
            (mode, embodied + dict_get KCAL_PER_KM mode 0 * food_emission_per_kcal inp))
         embodied_emissions"
  unfolding EMISSIONS_FACTORS_def
  by (simp add: dict_build_map [OF distinct_embodied] Let_def)

lemma EMISSIONS_FACTORS_list:
  "EMISSIONS_FACTORS inp =
     [(''Walking (including food fuel)'', 80 * food_emission_per_kcal inp),
      (''Standard Bike'', 0.02 + 50 * food_emission_per_kcal inp),
      (''Lightweight Bike'', 0.016 + 40 * food_emission_per_kcal inp),
      (''E-Bike'', 0.05 + 20 * food_emission_per_kcal inp),
      (''Small Car'', 0.44),
      (''Electric Car'', 0.24),
      (''Bus (per passenger)'', 0.12),
      (''Local Electric Train'', 0.00935)]"
  by (simp add: EMISSIONS_FACTORS_map embodied_emissions_def KCAL_PER_KM_def dict_get_def)

lemma keys_factors: "map fst (EMISSIONS_FACTORS inp) = vehicle_options"
  by (simp add: EMISSIONS_FACTORS_list vehicle_options_def)

lemma distinct_options: "distinct vehicle_options"
  by (simp add: vehicle_options_def)

lemma distinct_factors: "distinct (map fst (EMISSIONS_FACTORS inp))"
  by (simp add: keys_factors distinct_options)

lemma factor_defined:
  "mode \<in> set vehicle_options \<Longrightarrow> \<exists>f. map_of (EMISSIONS_FACTORS inp) mode = Some f"
proof -
  assume "mode \<in> set vehicle_options"
  then have "mode \<in> fst ` set (EMISSIONS_FACTORS inp)"
    using keys_factors [of inp] by (metis set_map)
  then obtain f where "(mode, f) \<in> set (EMISSIONS_FACTORS inp)" by auto
  then show ?thesis using distinct_factors by (metis map_of_is_SomeI)
qed

lemma factor_undefined:
  "mode \<notin> set vehicle_options \<Longrightarrow> map_of (EMISSIONS_FACTORS inp) mode = None"
  using keys_factors [of inp] by (metis map_of_eq_None_iff set_map)

lemma small_car_embodied: "dict_index embodied_emissions ''Small Car'' = Inr 0.44"
  by (simp add: dict_index_def embodied_emissions_def)


lemma run_fields:
  assumes "run inp = Inr r"
  shows "\<exists>bf. map_of (EMISSIONS_FACTORS inp) (vehicle_type inp) = Some bf \<and>
           passengers inp \<noteq> 0 \<and>
           base_factor r = bf \<and>
           emission_factor r = bf / of_int (passengers inp) \<and>
           total_emissions r
             = bf / of_int (passengers inp) * distance_km inp * of_int (multiplier inp) \<and>
           vehicle_total r
             = (if passengers inp > 1 \<and> vehicle_type inp \<in> set car_types
                then Some (bf * distance_km inp * of_int (multiplier inp)) else None) \<and>
           solo_car_emissions r = 0.44 * distance_km inp * of_int (multiplier inp) \<and>
           solo_baseline r = 0.44 * distance_km inp * of_int (multiplier inp) \<and>
           emissions_data r
             = map (\<lambda>(mode, factor). (mode, emissions_entry inp mode factor))
                 (EMISSIONS_FACTORS inp) \<and>
           sorted_modes r = sort_key snd (emissions_data r)"
  using assms
  by (auto simp add: run_def dict_index_def py_div_def small_car_embodied [unfolded dict_index_def]
        Let_def dict_build_map [OF distinct_factors] split: option.splits if_splits)

lemma run_returns:
  assumes "vehicle_type inp \<in> set vehicle_options" and "passengers inp \<noteq> 0"
  shows "\<exists>r. run inp = Inr r"
proof -
  from factor_defined [OF assms(1)] obtain bf
    where "map_of (EMISSIONS_FACTORS inp) (vehicle_type inp) = Some bf" by blast
  with assms(2) show ?thesis
    by (simp add: run_def dict_index_def py_div_def small_car_embodied [unfolded dict_index_def]
          Let_def)
qed

lemma valid_passengers: "valid_input inp \<Longrightarrow> 1 \<le> passengers inp \<and> passengers inp \<le> 5"
  by (simp add: valid_input_def passengers_def)

lemma valid_returns: "valid_input inp \<Longrightarrow> \<exists>r. run inp = Inr r"
  using run_returns [of inp] valid_passengers [of inp] by (simp add: valid_input_def)

lemma entry_lookup:
  assumes "run inp = Inr r" and "map_of (EMISSIONS_FACTORS inp) mode = Some factor"
  shows "map_of (emissions_data r) mode = Some (emissions_entry inp mode factor)"
proof -
  from run_fields [OF assms(1)]
  have "emissions_data r
          = map (\<lambda>(mode, factor). (mode, emissions_entry inp mode factor)) (EMISSIONS_FACTORS inp)"
    by blast
  then show ?thesis by (simp add: map_of_build assms(2))
qed

lemma returns_option:
  assumes "run inp = Inr r"
  shows "vehicle_type inp \<in> set vehicle_options \<and> passengers inp \<noteq> 0"
proof -
  from run_fields [OF assms] obtain bf
    where "map_of (EMISSIONS_FACTORS inp) (vehicle_type inp) = Some bf"
      and "passengers inp \<noteq> 0" by blast
  then show ?thesis using factor_undefined [of "vehicle_type inp" inp] by force
qed





subsection \<open>The comparison of all modes\<close>

text \<open>
  Claim C1. For every valid input the script returns, and \<open>emissions_data\<close> has one
  entry for each of the eight modes, in table order. The entry of a mode with factor
  \<open>f\<close> is \<open>(f / passengers) * distance_km * multiplier\<close> when the mode is the selected
  one and is Small Car or Electric Car, and \<open>f * distance_km * multiplier\<close> otherwise.
  In particular, with Small Car selected the Electric Car entry is the undivided
  \<open>0.24 * distance_km * multiplier\<close>, and with Electric Car selected the Small Car entry
  is the undivided \<open>0.44 * distance_km * multiplier\<close>, whatever the passenger count.
\<close>

theorem all_modes_entries:
  assumes "valid_input inp"
  shows "\<exists>r. run inp = Inr r \<and>
           map fst (emissions_data r) = vehicle_options \<and>
           (\<forall>(mode, factor) \<in> set (EMISSIONS_FACTORS inp).
              map_of (emissions_data r) mode
                = Some (if mode = vehicle_type inp \<and>
                           (mode = ''Small Car'' \<or> mode = ''Electric Car'')
                        then (factor / of_int (passengers inp))
                               * distance_km inp * of_int (multiplier inp)
                        else factor * distance_km inp * of_int (multiplier inp))) \<and>
           (vehicle_type inp = ''Small Car'' \<longrightarrow>
              map_of (emissions_data r) ''Electric Car''
                = Some (0.24 * distance_km inp * of_int (multiplier inp))) \<and>
           (vehicle_type inp = ''Electric Car'' \<longrightarrow>
              map_of (emissions_data r) ''Small Car''
                = Some (0.44 * distance_km inp * of_int (multiplier inp)))"
proof -
  from valid_returns [OF assms] obtain r where r: "run inp = Inr r" by blast
  from run_fields [OF r]
  have data: "emissions_data r
          = map (\<lambda>(mode, factor). (mode, emissions_entry inp mode factor)) (EMISSIONS_FACTORS inp)"
    by blast
  have keys: "map fst (emissions_data r) = vehicle_options"
    by (simp add: data EMISSIONS_FACTORS_list vehicle_options_def)
  have each: "map_of (emissions_data r) mode
                = Some (if mode = vehicle_type inp \<and>
                           (mode = ''Small Car'' \<or> mode = ''Electric Car'')
                        then (factor / of_int (passengers inp))
                               * distance_km inp * of_int (multiplier inp)
                        else factor * distance_km inp * of_int (multiplier inp))"
    if "(mode, factor) \<in> set (EMISSIONS_FACTORS inp)" for mode factor
  proof -
    from that have "map_of (EMISSIONS_FACTORS inp) mode = Some factor"
      using distinct_factors by (metis map_of_is_SomeI)
    from entry_lookup [OF r this]
    have "map_of (emissions_data r) mode = Some (emissions_entry inp mode factor)" .
    moreover have "emissions_entry inp mode factor
        = (if mode = vehicle_type inp \<and> (mode = ''Small Car'' \<or> mode = ''Electric Car'')
           then (factor / of_int (passengers inp)) * distance_km inp * of_int (multiplier inp)
           else factor * distance_km inp * of_int (multiplier inp))"
      by (auto simp add: emissions_entry_def car_types_def)
    ultimately show ?thesis by (simp only:)
  qed
  have ec: "map_of (emissions_data r) ''Electric Car''
                = Some (0.24 * distance_km inp * of_int (multiplier inp))"
    if "vehicle_type inp = ''Small Car''"
    using that entry_lookup [OF r, of "''Electric Car''" "0.24"]
    by (simp add: EMISSIONS_FACTORS_list emissions_entry_def)
  have sc: "map_of (emissions_data r) ''Small Car''
                = Some (0.44 * distance_km inp * of_int (multiplier inp))"
    if "vehicle_type inp = ''Electric Car''"
    using that entry_lookup [OF r, of "''Small Car''" "0.44"]
    by (simp add: EMISSIONS_FACTORS_list emissions_entry_def)
  have all: "\<forall>(mode, factor) \<in> set (EMISSIONS_FACTORS inp).
              map_of (emissions_data r) mode
                = Some (if mode = vehicle_type inp \<and>
                           (mode = ''Small Car'' \<or> mode = ''Electric Car'')
                        then (factor / of_int (passengers inp))
                               * distance_km inp * of_int (multiplier inp)
                        else factor * distance_km inp * of_int (multiplier inp))"
  proof (rule ballI)
    fix p
    assume p: "p \<in> set (EMISSIONS_FACTORS inp)"
    obtain mode factor where "p = (mode, factor)" by (cases p)
    with p each [of mode factor]
    show "case p of (mode, factor) \<Rightarrow>
              map_of (emissions_data r) mode
                = Some (if mode = vehicle_type inp \<and>
                           (mode = ''Small Car'' \<or> mode = ''Electric Car'')
                        then (factor / of_int (passengers inp))
                               * distance_km inp * of_int (multiplier inp)
                        else factor * distance_km inp * of_int (multiplier inp))"
      by (simp only: prod.case)
  qed
  show ?thesis
    by (intro exI [of _ r] conjI impI r keys all ec sc)
qed

theorem all_modes_entries_witness:
  "valid_input shared_small_car \<and>
   (\<exists>r. run shared_small_car = Inr r \<and>
        map_of (emissions_data r) ''Small Car'' = Some 1.1 \<and>
        map_of (emissions_data r) ''Electric Car'' = Some 2.4)"
proof -
  have v: "valid_input shared_small_car"
    by (simp add: valid_input_def shared_small_car_def vehicle_options_def car_types_def)
  from all_modes_entries [OF v] obtain r where r: "run shared_small_car = Inr r"
    and all: "\<forall>(mode, factor) \<in> set (EMISSIONS_FACTORS shared_small_car).
              map_of (emissions_data r) mode
                = Some (if mode = vehicle_type shared_small_car \<and>
                           (mode = ''Small Car'' \<or> mode = ''Electric Car'')
                        then (factor / of_int (passengers shared_small_car))
                               * distance_km shared_small_car
                               * of_int (multiplier shared_small_car)
                        else factor * distance_km shared_small_car
                               * of_int (multiplier shared_small_car))"
    by blast
  have "(''Small Car'', 0.44) \<in> set (EMISSIONS_FACTORS shared_small_car)"
    and "(''Electric Car'', 0.24) \<in> set (EMISSIONS_FACTORS shared_small_car)"
    by (simp_all add: EMISSIONS_FACTORS_list)
  with all have "map_of (emissions_data r) ''Small Car'' = Some 1.1"
    and "map_of (emissions_data r) ''Electric Car'' = Some 2.4"
    by (auto simp add: shared_small_car_def passengers_def multiplier_def car_types_def)
  with v r show ?thesis by blast
qed

subsection \<open>The solo small car baseline\<close>

text \<open>
  Claim C2. Whenever the script returns, both baseline figures (\<open>solo_car_emissions\<close>
  of line 77 and \<open>solo_baseline\<close> of line 92) are the raw embodied constant 0.44 times
  \<open>distance_km\<close> times \<open>multiplier\<close>. Small Car has no entry in the calorie table, so
  its entry in the factor table is 0.44 as well, under every diet; and replacing the
  diet by any other leaves both baseline figures unchanged.
\<close>

theorem baseline_raw_small_car:
  assumes "run inp = Inr r"
  shows "solo_baseline r = 0.44 * distance_km inp * of_int (multiplier inp) \<and>
         solo_car_emissions r = 0.44 * distance_km inp * of_int (multiplier inp) \<and>
         map_of KCAL_PER_KM ''Small Car'' = None \<and>
         dict_index embodied_emissions ''Small Car'' = Inr 0.44 \<and>
         dict_index (EMISSIONS_FACTORS inp) ''Small Car'' = Inr 0.44 \<and>
         (\<forall>diet. \<exists>r'. run (inp\<lparr>diet_type := diet\<rparr>) = Inr r' \<and>
                    solo_baseline r' = solo_baseline r \<and>
                    solo_car_emissions r' = solo_car_emissions r)"
proof -
  from run_fields [OF assms]
  have base: "solo_baseline r = 0.44 * distance_km inp * of_int (multiplier inp)"
    and solo: "solo_car_emissions r = 0.44 * distance_km inp * of_int (multiplier inp)"
    by blast+
  have kcal: "map_of KCAL_PER_KM ''Small Car'' = None"
    by (simp add: KCAL_PER_KM_def)
  have fac: "dict_index (EMISSIONS_FACTORS inp) ''Small Car'' = Inr 0.44"
    by (simp add: dict_index_def EMISSIONS_FACTORS_list)
  have diet: "\<exists>r'. run (inp\<lparr>diet_type := diet\<rparr>) = Inr r' \<and>
                    solo_baseline r' = solo_baseline r \<and>
                    solo_car_emissions r' = solo_car_emissions r" for diet
  proof -
    have "passengers (inp\<lparr>diet_type := diet\<rparr>) = passengers inp"
      by (simp add: passengers_def)
    with returns_option [OF assms]
    have "vehicle_type (inp\<lparr>diet_type := diet\<rparr>) \<in> set vehicle_options"
      and "passengers (inp\<lparr>diet_type := diet\<rparr>) \<noteq> 0"
      by simp_all
    from run_returns [OF this] obtain r' where r': "run (inp\<lparr>diet_type := diet\<rparr>) = Inr r'"
      by blast
    from run_fields [OF r']
    have "solo_baseline r' = 0.44 * distance_km inp * of_int (multiplier inp)"
      and "solo_car_emissions r' = 0.44 * distance_km inp * of_int (multiplier inp)"
      by (simp_all add: multiplier_def)
    with r' base solo show ?thesis by simp
  qed
  from base solo kcal small_car_embodied fac diet show ?thesis by blast
qed

theorem baseline_raw_small_car_witness:
  "\<exists>r r'. run shared_small_car = Inr r \<and> solo_baseline r = 4.4 \<and>
      run (shared_small_car\<lparr>diet_type := ''Low-carbon / Plant-based''\<rparr>) = Inr r' \<and>
      solo_baseline r' = 4.4"
proof -
  have "vehicle_type shared_small_car \<in> set vehicle_options"
    and "passengers shared_small_car \<noteq> 0"
    by (simp_all add: shared_small_car_def vehicle_options_def passengers_def car_types_def)
  from run_returns [OF this] obtain r where r: "run shared_small_car = Inr r" by blast
  from baseline_raw_small_car [OF r]
  have b: "solo_baseline r
             = 0.44 * distance_km shared_small_car * of_int (multiplier shared_small_car)"
    and d: "\<forall>diet. \<exists>r'. run (shared_small_car\<lparr>diet_type := diet\<rparr>) = Inr r' \<and>
              solo_baseline r' = solo_baseline r \<and>
              solo_car_emissions r' = solo_car_emissions r"
    by blast+
  from d obtain r'
    where r': "run (shared_small_car\<lparr>diet_type := ''Low-carbon / Plant-based''\<rparr>) = Inr r'"
      and same: "solo_baseline r' = solo_baseline r"
    by blast
  from b have "solo_baseline r = 4.4"
    by (simp add: shared_small_car_def multiplier_def)
  with r r' same show ?thesis by simp
qed

subsection \<open>The factor table\<close>

text \<open>
  Claim C3. For every diet the factor table has exactly the keys of the embodied
  emissions table, in the same order, and the factor of each mode is
  \<open>embodied[mode] + KCAL_PER_KM.get(mode, 0) * food_emission_per_kcal\<close>, where the diet
  constant is 0.0025 for Average Western and 0.0012 for Low-carbon / Plant-based. A mode
  that is not a key of the calorie table gets zero food emissions. Every factor lies
  between 0 and 0.44.
\<close>

theorem build_factors:
  "map fst (EMISSIONS_FACTORS inp) = map fst embodied_emissions \<and>
   (\<forall>(mode, embodied) \<in> set embodied_emissions.
      dict_index (EMISSIONS_FACTORS inp) mode
        = Inr (embodied + dict_get KCAL_PER_KM mode 0 * food_emission_per_kcal inp)) \<and>
   (diet_type inp = ''Average Western'' \<longrightarrow> food_emission_per_kcal inp = 0.0025) \<and>
   (diet_type inp = ''Low-carbon / Plant-based'' \<longrightarrow> food_emission_per_kcal inp = 0.0012) \<and>
   (\<forall>mode. mode \<notin> fst ` set KCAL_PER_KM \<longrightarrow> dict_get KCAL_PER_KM mode 0 = 0) \<and>
   (\<forall>(mode, factor) \<in> set (EMISSIONS_FACTORS inp). 0 \<le> factor \<and> factor \<le> 0.44)"
proof -
  have keys: "map fst (EMISSIONS_FACTORS inp) = map fst embodied_emissions"
    by (simp add: EMISSIONS_FACTORS_list embodied_emissions_def)
  have vals: "\<forall>(mode, embodied) \<in> set embodied_emissions.
      dict_index (EMISSIONS_FACTORS inp) mode
        = Inr (embodied + dict_get KCAL_PER_KM mode 0 * food_emission_per_kcal inp)"
  proof (rule ballI)
    fix p
    assume p: "p \<in> set embodied_emissions"
    obtain mode embodied where pe: "p = (mode, embodied)" by (cases p)
    with p have "map_of embodied_emissions mode = Some embodied"
      using distinct_embodied by (metis map_of_is_SomeI)
    then have "dict_index (EMISSIONS_FACTORS inp) mode
        = Inr (embodied + dict_get KCAL_PER_KM mode 0 * food_emission_per_kcal inp)"
      by (simp add: dict_index_def EMISSIONS_FACTORS_map map_of_build)
    with pe show "case p of (mode, embodied) \<Rightarrow>
      dict_index (EMISSIONS_FACTORS inp) mode
        = Inr (embodied + dict_get KCAL_PER_KM mode 0 * food_emission_per_kcal inp)"
      by (simp only: prod.case)
  qed
  have aw: "diet_type inp = ''Average Western'' \<longrightarrow> food_emission_per_kcal inp = 0.0025"
    by (simp add: food_emission_per_kcal_def)
  have lc: "diet_type inp = ''Low-carbon / Plant-based'' \<longrightarrow> food_emission_per_kcal inp = 0.0012"
    by (simp add: food_emission_per_kcal_def)
  have absent: "\<forall>mode. mode \<notin> fst ` set KCAL_PER_KM \<longrightarrow> dict_get KCAL_PER_KM mode 0 = 0"
  proof (intro allI impI)
    fix mode :: string
    assume "mode \<notin> fst ` set KCAL_PER_KM"
    then have "map_of KCAL_PER_KM mode = None" by (simp add: map_of_eq_None_iff)
    then show "dict_get KCAL_PER_KM mode 0 = (0::real)" by (simp add: dict_get_def)
  qed
  have fe: "0 \<le> food_emission_per_kcal inp" "food_emission_per_kcal inp \<le> 0.0025"
    by (simp_all add: food_emission_per_kcal_def)
  have bounds: "\<forall>(mode, factor) \<in> set (EMISSIONS_FACTORS inp). 0 \<le> factor \<and> factor \<le> 0.44"
    using fe by (simp add: EMISSIONS_FACTORS_list)
  from keys vals aw lc absent bounds show ?thesis by (intro conjI)
qed

theorem build_factors_witness:
  "(''Standard Bike'', 0.02) \<in> set embodied_emissions \<and>
   diet_type shared_small_car = ''Average Western'' \<and>
   food_emission_per_kcal shared_small_car = 0.0025 \<and>
   dict_index (EMISSIONS_FACTORS shared_small_car) ''Standard Bike'' = Inr 0.145 \<and>
   food_emission_per_kcal (shared_small_car\<lparr>diet_type := ''Low-carbon / Plant-based''\<rparr>)
     = 0.0012 \<and>
   ''Small Car'' \<notin> fst ` set KCAL_PER_KM \<and>
   dict_get KCAL_PER_KM ''Small Car'' 0 = (0::real) \<and>
   (''Electric Car'', 0.24) \<in> set (EMISSIONS_FACTORS shared_small_car)"
proof -
  have bike: "(''Standard Bike'', 0.02) \<in> set embodied_emissions"
    by (simp add: embodied_emissions_def)
  have aw: "diet_type shared_small_car = ''Average Western''"
    by (simp add: shared_small_car_def)
  have lc: "diet_type (shared_small_car\<lparr>diet_type := ''Low-carbon / Plant-based''\<rparr>)
              = ''Low-carbon / Plant-based''"
    by simp
  have car: "''Small Car'' \<notin> fst ` set KCAL_PER_KM"
    by (simp add: KCAL_PER_KM_def)
  have ec: "(''Electric Car'', 0.24) \<in> set (EMISSIONS_FACTORS shared_small_car)"
    by (simp add: EMISSIONS_FACTORS_list)
  have kcal: "dict_get KCAL_PER_KM ''Standard Bike'' 0 = (50::real)"
    by (simp add: dict_get_def KCAL_PER_KM_def)
  from build_factors [of shared_small_car] aw
  have fe: "food_emission_per_kcal shared_small_car = 0.0025" by blast
  from build_factors [of shared_small_car] bike
  have "dict_index (EMISSIONS_FACTORS shared_small_car) ''Standard Bike''
          = Inr (0.02 + dict_get KCAL_PER_KM ''Standard Bike'' 0
                          * food_emission_per_kcal shared_small_car)"
    by fast
  then have sb: "dict_index (EMISSIONS_FACTORS shared_small_car) ''Standard Bike'' = Inr 0.145"
    by (simp add: kcal fe)
  from build_factors [of shared_small_car] car
  have zero: "dict_get KCAL_PER_KM ''Small Car'' 0 = (0::real)" by blast
  from build_factors [of "shared_small_car\<lparr>diet_type := ''Low-carbon / Plant-based''\<rparr>"] lc
  have fl: "food_emission_per_kcal
              (shared_small_car\<lparr>diet_type := ''Low-carbon / Plant-based''\<rparr>) = 0.0012"
    by blast
  from bike aw fe sb fl car zero ec show ?thesis by (intro conjI)
qed

subsection \<open>The selected mode's total\<close>

text \<open>
  Claim C4. For every valid input, \<open>passengers\<close> is the slider value when the mode is
  Small Car or Electric Car and 1 otherwise; \<open>multiplier\<close> is 520 for the view Per Year
  and 1 for Per Trip; the script returns, and \<open>total_emissions\<close> is
  \<open>(factors[mode] / passengers) * distance_km * multiplier\<close>. With \<open>distance_km = 0\<close>
  the total is 0, for every mode, diet, passenger count and view.
\<close>

theorem evaluate_total:
  assumes "valid_input inp"
  shows "passengers inp
           = (if vehicle_type inp = ''Small Car'' \<or> vehicle_type inp = ''Electric Car''
              then slider inp else 1) \<and>
         (view inp = ''Per Year'' \<longrightarrow> multiplier inp = 520) \<and>
         (view inp = ''Per Trip'' \<longrightarrow> multiplier inp = 1) \<and>
         (\<exists>r factor.
            run inp = Inr r \<and>
            dict_index (EMISSIONS_FACTORS inp) (vehicle_type inp) = Inr factor \<and>
            total_emissions r
              = (factor / of_int (passengers inp)) * distance_km inp * of_int (multiplier inp) \<and>
            (distance_km inp = 0 \<longrightarrow> total_emissions r = 0))"
proof -
  have p: "passengers inp
           = (if vehicle_type inp = ''Small Car'' \<or> vehicle_type inp = ''Electric Car''
              then slider inp else 1)"
    by (simp add: passengers_def car_types_def)
  have y: "view inp = ''Per Year'' \<longrightarrow> multiplier inp = 520"
    by (simp add: multiplier_def trips_per_year_def)
  have t: "view inp = ''Per Trip'' \<longrightarrow> multiplier inp = 1"
    by (simp add: multiplier_def)
  from valid_returns [OF assms] obtain r where r: "run inp = Inr r" by blast
  from run_fields [OF r] obtain factor
    where f: "map_of (EMISSIONS_FACTORS inp) (vehicle_type inp) = Some factor"
      and tot: "total_emissions r
              = factor / of_int (passengers inp) * distance_km inp * of_int (multiplier inp)"
    by blast
  from f have idx: "dict_index (EMISSIONS_FACTORS inp) (vehicle_type inp) = Inr factor"
    by (simp add: dict_index_def)
  from tot have zero: "distance_km inp = 0 \<longrightarrow> total_emissions r = 0"
    by simp
  from r idx tot zero
  have "\<exists>r factor.
            run inp = Inr r \<and>
            dict_index (EMISSIONS_FACTORS inp) (vehicle_type inp) = Inr factor \<and>
            total_emissions r
              = (factor / of_int (passengers inp)) * distance_km inp * of_int (multiplier inp) \<and>
            (distance_km inp = 0 \<longrightarrow> total_emissions r = 0)"
    by blast
  with p y t show ?thesis by (intro conjI)
qed

theorem evaluate_total_witness:
  "valid_input shared_small_car \<and>
   passengers shared_small_car = 4 \<and>
   multiplier shared_small_car = 1 \<and>
   valid_input yearly_walk_nowhere \<and>
   passengers yearly_walk_nowhere = 1 \<and>
   multiplier yearly_walk_nowhere = 520 \<and>
   distance_km yearly_walk_nowhere = 0 \<and>
   (\<exists>r. run yearly_walk_nowhere = Inr r \<and> total_emissions r = 0)"
proof -
  have v: "valid_input yearly_walk_nowhere"
    by (simp add: valid_input_def yearly_walk_nowhere_def vehicle_options_def car_types_def)
  have y: "view yearly_walk_nowhere = ''Per Year''"
    and d: "distance_km yearly_walk_nowhere = 0"
    and m: "vehicle_type yearly_walk_nowhere = ''Walking (including food fuel)''"
    by (simp_all add: yearly_walk_nowhere_def)
  from evaluate_total [OF v] m have p: "passengers yearly_walk_nowhere = 1" by simp
  from evaluate_total [OF v] y have mu: "multiplier yearly_walk_nowhere = 520" by blast
  from evaluate_total [OF v] d
  have "\<exists>r. run yearly_walk_nowhere = Inr r \<and> total_emissions r = 0" by blast
  moreover have v': "valid_input shared_small_car"
    by (simp add: valid_input_def shared_small_car_def vehicle_options_def car_types_def)
  moreover have "view shared_small_car = ''Per Trip''"
    and "vehicle_type shared_small_car = ''Small Car''"
    and "slider shared_small_car = 4"
    by (simp_all add: shared_small_car_def)
  with evaluate_total [OF v']
  have "passengers shared_small_car = 4" and "multiplier shared_small_car = 1"
    by simp_all
  ultimately show ?thesis using v p mu d by (intro conjI)
qed

subsection \<open>Per trip and per year\<close>

text \<open>
  Claim C6. Fix the mode, distance, passengers and diet. If the script returns for the
  view Per Trip then it returns for the view Per Year, and \<open>total_emissions\<close>, the
  vehicle total of line 74 (where it is computed at all) and both baseline figures
  are each exactly 520 times their per-trip values.
\<close>

theorem per_year_is_520_trips:
  assumes "run (inp\<lparr>view := ''Per Trip''\<rparr>) = Inr trip"
  shows "\<exists>year. run (inp\<lparr>view := ''Per Year''\<rparr>) = Inr year \<and>
           total_emissions year = 520 * total_emissions trip \<and>
           vehicle_total year = map_option ((*) 520) (vehicle_total trip) \<and>
           solo_car_emissions year = 520 * solo_car_emissions trip \<and>
           solo_baseline year = 520 * solo_baseline trip"
proof -
  let ?t = "inp\<lparr>view := ''Per Trip''\<rparr>" and ?y = "inp\<lparr>view := ''Per Year''\<rparr>"
  have same: "passengers ?y = passengers ?t" "vehicle_type ?y = vehicle_type ?t"
    "distance_km ?y = distance_km ?t" "EMISSIONS_FACTORS ?y = EMISSIONS_FACTORS ?t"
    by (simp_all add: passengers_def EMISSIONS_FACTORS_def food_emission_per_kcal_def)
  have mult: "multiplier ?t = 1" "multiplier ?y = 520"
    by (simp_all add: multiplier_def trips_per_year_def)
  from returns_option [OF assms] same
  have "vehicle_type ?y \<in> set vehicle_options" and "passengers ?y \<noteq> 0" by simp_all
  from run_returns [OF this] obtain year where year: "run ?y = Inr year" by blast
  from run_fields [OF assms] obtain bf
    where bf: "map_of (EMISSIONS_FACTORS ?t) (vehicle_type ?t) = Some bf"
      and t_tot: "total_emissions trip
                    = bf / of_int (passengers ?t) * distance_km ?t * of_int (multiplier ?t)"
      and t_veh: "vehicle_total trip
             = (if passengers ?t > 1 \<and> vehicle_type ?t \<in> set car_types
                then Some (bf * distance_km ?t * of_int (multiplier ?t)) else None)"
      and t_solo: "solo_car_emissions trip = 0.44 * distance_km ?t * of_int (multiplier ?t)"
      and t_base: "solo_baseline trip = 0.44 * distance_km ?t * of_int (multiplier ?t)"
    by blast
  from run_fields [OF year] obtain bf'
    where bf': "map_of (EMISSIONS_FACTORS ?y) (vehicle_type ?y) = Some bf'"
      and y_tot: "total_emissions year
                    = bf' / of_int (passengers ?y) * distance_km ?y * of_int (multiplier ?y)"
      and y_veh: "vehicle_total year
             = (if passengers ?y > 1 \<and> vehicle_type ?y \<in> set car_types
                then Some (bf' * distance_km ?y * of_int (multiplier ?y)) else None)"
      and y_solo: "solo_car_emissions year = 0.44 * distance_km ?y * of_int (multiplier ?y)"
      and y_base: "solo_baseline year = 0.44 * distance_km ?y * of_int (multiplier ?y)"
    by blast
  from bf bf' same have eq: "bf' = bf" by simp
  have "total_emissions year = 520 * total_emissions trip"
    by (simp add: t_tot y_tot eq same mult)
  moreover have "vehicle_total year = map_option ((*) 520) (vehicle_total trip)"
    by (simp add: t_veh y_veh eq same mult)
  moreover have "solo_car_emissions year = 520 * solo_car_emissions trip"
    by (simp add: t_solo y_solo same mult)
  moreover have "solo_baseline year = 520 * solo_baseline trip"
    by (simp add: t_base y_base same mult)
  ultimately show ?thesis using year by blast
qed


theorem per_year_is_520_trips_witness:
  "\<exists>trip year.
     run (shared_small_car\<lparr>view := ''Per Trip''\<rparr>) = Inr trip \<and>
     run (shared_small_car\<lparr>view := ''Per Year''\<rparr>) = Inr year \<and>
     total_emissions trip = 1.1 \<and> total_emissions year = 572 \<and>
     vehicle_total trip = Some 4.4 \<and> vehicle_total year = Some 2288 \<and>
     solo_baseline trip = 4.4 \<and> solo_baseline year = 2288"
proof -
  let ?t = "shared_small_car\<lparr>view := ''Per Trip''\<rparr>"
  have "vehicle_type ?t \<in> set vehicle_options" and "passengers ?t \<noteq> 0"
    by (simp_all add: shared_small_car_def vehicle_options_def passengers_def car_types_def)
  from run_returns [OF this] obtain trip where trip: "run ?t = Inr trip" by blast
  from run_fields [OF trip]
  have "total_emissions trip = 1.1" and "vehicle_total trip = Some 4.4"
    and "solo_baseline trip = 4.4"
    by (simp_all add: EMISSIONS_FACTORS_list shared_small_car_def passengers_def
          multiplier_def car_types_def)
  with per_year_is_520_trips [OF trip] trip show ?thesis by auto
qed

subsection \<open>The selected mode in the comparison\<close>

text \<open>
  Claim C9. For every valid input the entry of the selected mode in
  \<open>emissions_data\<close> is \<open>total_emissions\<close>: the divisor of line 87 for the selected
  mode is \<open>passengers\<close> for a car type and 1 otherwise, and \<open>passengers\<close> itself is 1
  for every mode that is not a car type.
\<close>

theorem selected_entry_is_total:
  assumes "valid_input inp"
  shows "\<exists>r. run inp = Inr r \<and>
           dict_index (emissions_data r) (vehicle_type inp) = Inr (total_emissions r)"
proof -
  from valid_returns [OF assms] obtain r where r: "run inp = Inr r" by blast
  from run_fields [OF r] obtain bf
    where bf: "map_of (EMISSIONS_FACTORS inp) (vehicle_type inp) = Some bf"
      and tot: "total_emissions r
                  = bf / of_int (passengers inp) * distance_km inp * of_int (multiplier inp)"
    by blast
  have "emissions_entry inp (vehicle_type inp) bf
          = bf / of_int (passengers inp) * distance_km inp * of_int (multiplier inp)"
    by (simp add: emissions_entry_def passengers_def)
  with entry_lookup [OF r bf] tot
  have "map_of (emissions_data r) (vehicle_type inp) = Some (total_emissions r)" by simp
  then have "dict_index (emissions_data r) (vehicle_type inp) = Inr (total_emissions r)"
    by (simp add: dict_index_def)
  with r show ?thesis by blast
qed

theorem selected_entry_is_total_witness:
  "valid_input shared_small_car \<and>
   (\<exists>r. run shared_small_car = Inr r \<and> total_emissions r = 1.1 \<and>
      dict_index (emissions_data r) ''Small Car'' = Inr 1.1)"
proof -
  have v: "valid_input shared_small_car"
    by (simp add: valid_input_def shared_small_car_def vehicle_options_def car_types_def)
  from selected_entry_is_total [OF v] obtain r where r: "run shared_small_car = Inr r"
    and e: "dict_index (emissions_data r) (vehicle_type shared_small_car)
              = Inr (total_emissions r)"
    by blast
  from run_fields [OF r] have "total_emissions r = 1.1"
    by (simp add: EMISSIONS_FACTORS_list shared_small_car_def passengers_def
          multiplier_def car_types_def)
  moreover have "vehicle_type shared_small_car = ''Small Car''"
    by (simp add: shared_small_car_def)
  ultimately show ?thesis using v r e by auto
qed

subsection \<open>Non-negative quantities\<close>

text \<open>
  Claim C10. For a non-negative distance, a passenger count of at least 1 and one of
  the eight modes, the script returns and every computed quantity is non-negative:
  each factor of the factor table, the per-person rate \<open>emission_factor\<close>,
  \<open>total_emissions\<close>, the vehicle total, both baseline figures, and the value of every
  mode in \<open>emissions_data\<close> and in \<open>sorted_modes\<close>. The passenger count meant is the
  resolved \<open>passengers\<close>, which is at least 1 whenever the slider value is.
\<close>

theorem all_quantities_nonnegative:
  assumes "0 \<le> distance_km inp" and "1 \<le> passengers inp"
    and "vehicle_type inp \<in> set vehicle_options"
  shows "\<exists>r. run inp = Inr r \<and>
           (\<forall>(mode, factor) \<in> set (EMISSIONS_FACTORS inp). 0 \<le> factor) \<and>
           0 \<le> emission_factor r \<and>
           0 \<le> total_emissions r \<and>
           (\<forall>v. vehicle_total r = Some v \<longrightarrow> 0 \<le> v) \<and>
           0 \<le> solo_car_emissions r \<and>
           0 \<le> solo_baseline r \<and>
           (\<forall>(mode, v) \<in> set (emissions_data r). 0 \<le> v) \<and>
           (\<forall>(mode, v) \<in> set (sorted_modes r). 0 \<le> v)"
proof -
  from assms(2) have "passengers inp \<noteq> 0" by simp
  from run_returns [OF assms(3) this] obtain r where r: "run inp = Inr r" by blast
  have fe: "0 \<le> food_emission_per_kcal inp"
    by (simp add: food_emission_per_kcal_def)
  have m: "0 \<le> multiplier inp"
    by (simp add: multiplier_def trips_per_year_def)
  have factors: "\<forall>(mode, factor) \<in> set (EMISSIONS_FACTORS inp). 0 \<le> factor"
    using fe by (simp add: EMISSIONS_FACTORS_list)
  from run_fields [OF r] obtain bf
    where bf: "map_of (EMISSIONS_FACTORS inp) (vehicle_type inp) = Some bf"
      and ef: "emission_factor r = bf / of_int (passengers inp)"
      and tot: "total_emissions r
                  = bf / of_int (passengers inp) * distance_km inp * of_int (multiplier inp)"
      and veh: "vehicle_total r
             = (if passengers inp > 1 \<and> vehicle_type inp \<in> set car_types
                then Some (bf * distance_km inp * of_int (multiplier inp)) else None)"
      and solo: "solo_car_emissions r = 0.44 * distance_km inp * of_int (multiplier inp)"
      and base: "solo_baseline r = 0.44 * distance_km inp * of_int (multiplier inp)"
      and data: "emissions_data r
             = map (\<lambda>(mode, factor). (mode, emissions_entry inp mode factor))
                 (EMISSIONS_FACTORS inp)"
      and srt: "sorted_modes r = sort_key snd (emissions_data r)"
    by blast
  from bf have "(vehicle_type inp, bf) \<in> set (EMISSIONS_FACTORS inp)"
    by (rule map_of_SomeD)
  with factors have bf0: "0 \<le> bf" by blast
  have ef0: "0 \<le> emission_factor r"
    using bf0 assms(2) by (simp add: ef)
  have tot0: "0 \<le> total_emissions r"
    using bf0 assms(1,2) m by (simp add: tot)
  have veh0: "\<forall>v. vehicle_total r = Some v \<longrightarrow> 0 \<le> v"
    using bf0 assms(1) m by (simp add: veh)
  have solo0: "0 \<le> solo_car_emissions r"
    using assms(1) m by (simp add: solo)
  have base0: "0 \<le> solo_baseline r"
    using assms(1) m by (simp add: base)
  have entry0: "0 \<le> emissions_entry inp mode factor" if "0 \<le> factor" for mode factor
    using that assms(1,2) m by (simp add: emissions_entry_def)
  have data0: "\<forall>(mode, v) \<in> set (emissions_data r). 0 \<le> v"
    using factors entry0 by (auto simp add: data)
  have srt0: "\<forall>(mode, v) \<in> set (sorted_modes r). 0 \<le> v"
    using data0 by (simp add: srt)
  from r factors ef0 tot0 veh0 solo0 base0 data0 srt0 show ?thesis
    by (intro exI [of _ r] conjI)
qed

theorem all_quantities_nonnegative_witness:
  "0 \<le> distance_km shared_small_car \<and>
   1 \<le> passengers shared_small_car \<and>
   vehicle_type shared_small_car \<in> set vehicle_options \<and>
   (\<exists>r. run shared_small_car = Inr r \<and> vehicle_total r = Some 4.4 \<and>
        0 \<le> total_emissions r \<and> 0 \<le> solo_baseline r)"
proof -
  have d: "0 \<le> distance_km shared_small_car"
    and p: "1 \<le> passengers shared_small_car"
    and v: "vehicle_type shared_small_car \<in> set vehicle_options"
    by (simp_all add: shared_small_car_def passengers_def car_types_def vehicle_options_def)
  from all_quantities_nonnegative [OF d p v] obtain r
    where r: "run shared_small_car = Inr r"
      and "0 \<le> total_emissions r" and "0 \<le> solo_baseline r"
    by blast
  moreover from run_fields [OF r] have "vehicle_total r = Some 4.4"
    by (simp add: EMISSIONS_FACTORS_list shared_small_car_def passengers_def
          multiplier_def car_types_def)
  ultimately show ?thesis using d p v by blast
qed

subsection \<open>The sorted comparison\<close>

text \<open>
  Claim C8. Whenever the script returns, \<open>sorted_modes\<close> is ascending in the emission
  value (as a whole, and so for every two adjacent entries), it is a rearrangement of
  \<open>emissions_data\<close>, whose keys are those of the embodied emissions table in insertion
  order, and entries of equal value keep the order they have in \<open>emissions_data\<close>.
  Python's \<^verbatim>\<open>sorted\<close> is stable; it is modelled by the stable \<open>sort_key\<close>.
\<close>

theorem sorted_modes_ascending_stable:
  assumes "run inp = Inr r"
  shows "sorted (map snd (sorted_modes r)) \<and>
         (\<forall>i. Suc i < length (sorted_modes r) \<longrightarrow>
              snd (sorted_modes r ! i) \<le> snd (sorted_modes r ! Suc i)) \<and>
         mset (sorted_modes r) = mset (emissions_data r) \<and>
         map fst (emissions_data r) = map fst embodied_emissions \<and>
         (\<forall>v. filter (\<lambda>entry. snd entry = v) (sorted_modes r)
                = filter (\<lambda>entry. snd entry = v) (emissions_data r))"
proof -
  from run_fields [OF assms]
  have srt: "sorted_modes r = sort_key snd (emissions_data r)"
    and data: "emissions_data r
             = map (\<lambda>(mode, factor). (mode, emissions_entry inp mode factor))
                 (EMISSIONS_FACTORS inp)"
    by blast+
  have asc: "sorted (map snd (sorted_modes r))"
    by (simp add: srt)
  have adj: "\<forall>i. Suc i < length (sorted_modes r) \<longrightarrow>
              snd (sorted_modes r ! i) \<le> snd (sorted_modes r ! Suc i)"
  proof (intro allI impI)
    fix i
    assume i: "Suc i < length (sorted_modes r)"
    then have "map snd (sorted_modes r) ! i \<le> map snd (sorted_modes r) ! Suc i"
      using asc by (simp add: sorted_iff_nth_Suc)
    with i show "snd (sorted_modes r ! i) \<le> snd (sorted_modes r ! Suc i)"
      by simp
  qed
  have perm: "mset (sorted_modes r) = mset (emissions_data r)"
    by (simp add: srt)
  have keys: "map fst (emissions_data r) = map fst embodied_emissions"
    by (simp add: data EMISSIONS_FACTORS_list embodied_emissions_def)
  have stable: "\<forall>v. filter (\<lambda>entry. snd entry = v) (sorted_modes r)
                = filter (\<lambda>entry. snd entry = v) (emissions_data r)"
    by (simp add: srt sort_key_stable)
  from asc adj perm keys stable show ?thesis by (intro conjI)
qed

theorem sorted_modes_ascending_stable_witness:
  "\<exists>r. run shared_electric_car = Inr r \<and>
      sorted_modes r =
        [(''Local Electric Train'', 0.0935),
         (''E-Bike'', 1),
         (''Lightweight Bike'', 1.16),
         (''Electric Car'', 1.2),
         (''Bus (per passenger)'', 1.2),
         (''Standard Bike'', 1.45),
         (''Walking (including food fuel)'', 2),
         (''Small Car'', 4.4)] \<and>
      sorted (map snd (sorted_modes r)) \<and>
      filter (\<lambda>entry. snd entry = 1.2) (sorted_modes r)
        = [(''Electric Car'', 1.2), (''Bus (per passenger)'', 1.2)]"
proof -
  have "vehicle_type shared_electric_car \<in> set vehicle_options"
    and "passengers shared_electric_car \<noteq> 0"
    by (simp_all add: shared_electric_car_def vehicle_options_def passengers_def car_types_def)
  from run_returns [OF this] obtain r where r: "run shared_electric_car = Inr r" by blast
  from run_fields [OF r] have data: "emissions_data r =
        [(''Walking (including food fuel)'', 2),
         (''Standard Bike'', 1.45),
         (''Lightweight Bike'', 1.16),
         (''E-Bike'', 1),
         (''Small Car'', 4.4),
         (''Electric Car'', 1.2),
         (''Bus (per passenger)'', 1.2),
         (''Local Electric Train'', 0.0935)]"
    by (simp add: EMISSIONS_FACTORS_list emissions_entry_def shared_electric_car_def
          food_emission_per_kcal_def passengers_def multiplier_def car_types_def)
  from run_fields [OF r] have "sorted_modes r = sort_key snd (emissions_data r)" by blast
  then have srt: "sorted_modes r =
        [(''Local Electric Train'', 0.0935),
         (''E-Bike'', 1),
         (''Lightweight Bike'', 1.16),
         (''Electric Car'', 1.2),
         (''Bus (per passenger)'', 1.2),
         (''Standard Bike'', 1.45),
         (''Walking (including food fuel)'', 2),
         (''Small Car'', 4.4)]"
    by (simp add: data)
  from sorted_modes_ascending_stable [OF r]
  have asc: "sorted (map snd (sorted_modes r))"
    and "filter (\<lambda>entry. snd entry = 1.2) (sorted_modes r)
                = filter (\<lambda>entry. snd entry = 1.2) (emissions_data r)"
    by blast+
  then have "filter (\<lambda>entry. snd entry = 1.2) (sorted_modes r)
        = [(''Electric Car'', 1.2), (''Bus (per passenger)'', 1.2)]"
    by (simp add: data)
  with r srt asc show ?thesis by blast
qed

subsection \<open>Errors\<close>




subsection \<open>Changing the diet\<close>




end
